theory Spec2Isabelle
  imports Complex_Main "HOL-Library.Word"
begin

unbundle bit_operations_syntax

section \<open>JavaScript values used by the contract helpers\<close>

text \<open>
  A JavaScript string is a sequence of UTF-16 code units; \<open>split('')\<close>, \<open>charCodeAt\<close>,
  \<open>substring\<close>, \<open>length\<close> and a regular expression without the \<open>u\<close> flag all work on
  code units. Literals of the source are ASCII and are written through \<open>utf16\<close>.
\<close>

type_synonym jsstring = "16 word list"

definition utf16 :: "string \<Rightarrow> jsstring" where
  "utf16 s = map of_char s"

section \<open>mapMarketIdToCampaignId\<close>

text \<open>
  The accumulator of the reducer is a JavaScript number. Every value it takes is an integer
  of magnitude below \<open>2 ^ 53\<close> (lemma \<open>hash_step_exact\<close> below), so the double arithmetic of
  \<open>-\<close> and \<open>+\<close> is exact and the number is modelled as an \<open>int\<close>. The bitwise operators
  convert their operands with ToInt32 and give a signed 32-bit result.
\<close>

definition ToInt32 :: "int \<Rightarrow> 32 word" where
  "ToInt32 x = word_of_int x"

definition js_shl :: "int \<Rightarrow> nat \<Rightarrow> int" where
  \<comment> \<open>\<open>x << n\<close>: the shift count is taken modulo 32\<close>
  "js_shl x n = sint (push_bit (n mod 32) (ToInt32 x))"

definition js_and :: "int \<Rightarrow> int \<Rightarrow> int" where
  \<comment> \<open>\<open>x & y\<close>\<close>
  "js_and x y = sint (ToInt32 x AND ToInt32 y)"

definition js_rem :: "int \<Rightarrow> int \<Rightarrow> int" where
  \<comment> \<open>\<open>x % m\<close> on integral numbers, \<open>m \<noteq> 0\<close>: the remainder has the sign of the dividend\<close>
  "js_rem x m = sgn x * (\<bar>x\<bar> mod \<bar>m\<bar>)"

definition charCodeAt0 :: "16 word \<Rightarrow> int" where
  \<comment> \<open>\<open>b.charCodeAt(0)\<close> of a one-unit string \<open>b\<close>\<close>
  "charCodeAt0 b = uint b"

definition hash_step :: "int \<Rightarrow> 16 word \<Rightarrow> int" where
  "hash_step a b = (let a' = (js_shl a 5 - a) + charCodeAt0 b in js_and a' a')"

definition hashCode :: "jsstring \<Rightarrow> int" where
  \<comment> \<open>\<open>marketId.split('').reduce(..., 0)\<close>\<close>
  "hashCode marketId = foldl hash_step 0 marketId"

definition mapMarketIdToCampaignId :: "jsstring \<Rightarrow> int" where
  "mapMarketIdToCampaignId marketId = \<bar>js_rem (hashCode marketId) 1000\<bar>"

text \<open>The rolling hash as the specification words it: \<open>hash * 31 + charCode\<close> in 32 bits.\<close>

definition rolling_hash :: "jsstring \<Rightarrow> 32 word" where
  "rolling_hash s = foldl (\<lambda>h c. h * 31 + ucast c) 0 s"

section \<open>formatAddress\<close>

definition substring :: "jsstring \<Rightarrow> int \<Rightarrow> int option \<Rightarrow> jsstring" where
  \<comment> \<open>\<open>String.prototype.substring(start, end)\<close>: both indices are clamped into
      \<open>0 .. length\<close>, a missing end is the length, and the smaller index comes first\<close>
  "substring s start end =
     (let len = int (length s);
          intEnd = (case end of None \<Rightarrow> len | Some e \<Rightarrow> e);
          finalStart = min (max start 0) len;
          finalEnd = min (max intEnd 0) len;
          from = min finalStart finalEnd;
          to = max finalStart finalEnd
      in take (nat (to - from)) (drop (nat from) s))"

definition formatAddress :: "jsstring \<Rightarrow> jsstring" where
  "formatAddress address =
     substring address 0 (Some 6) @ utf16 ''...'' @
     substring address (int (length address) - 4) None"

section \<open>isAddressValid\<close>

text \<open>
  The regular expression literal \<open>/^0x[a-fA-F0-9]{40}$/\<close>, as a sequence of terms between the
  two anchors. Without the \<open>m\<close> flag \<open>$\<close> matches at the end of the input only.
\<close>

datatype atom = Lit "16 word" | Class "(16 word \<times> 16 word) list"

datatype regex_term = One atom | Exactly nat atom

fun atom_matches :: "atom \<Rightarrow> 16 word \<Rightarrow> bool" where
  "atom_matches (Lit l) c = (c = l)"
| "atom_matches (Class ranges) c = list_ex (\<lambda>(lo, hi). lo \<le> c \<and> c \<le> hi) ranges"

fun exactly :: "nat \<Rightarrow> atom \<Rightarrow> jsstring \<Rightarrow> jsstring option" where
  "exactly 0 a s = Some s"
| "exactly (Suc n) a [] = None"
| "exactly (Suc n) a (c # cs) = (if atom_matches a c then exactly n a cs else None)"

fun regex_test :: "regex_term list \<Rightarrow> jsstring \<Rightarrow> bool" where
  "regex_test [] s = (s = [])"
| "regex_test (One a # ts) [] = False"
| "regex_test (One a # ts) (c # cs) = (atom_matches a c \<and> regex_test ts cs)"
| "regex_test (Exactly n a # ts) s =
     (case exactly n a s of None \<Rightarrow> False | Some rest \<Rightarrow> regex_test ts rest)"

definition address_regex :: "regex_term list" where
  "address_regex =
     [One (Lit (of_char CHR ''0'')), One (Lit (of_char CHR ''x'')),
      Exactly 40 (Class [(of_char CHR ''a'', of_char CHR ''f''),
                         (of_char CHR ''A'', of_char CHR ''F''),
                         (of_char CHR ''0'', of_char CHR ''9'')])]"

definition isAddressValid :: "jsstring \<Rightarrow> bool" where
  \<comment> \<open>\<open>test\<close> on a string never throws, so the \<open>catch\<close> branch is not reached\<close>
  "isAddressValid address = regex_test address_regex address"

text \<open>The address format as the specification words it: \<open>0x\<close>, then exactly 40 hex digits.\<close>

definition hex_digits :: "16 word set" where
  "hex_digits = of_char ` set ''0123456789abcdefABCDEF''"

definition address_format :: "jsstring \<Rightarrow> bool" where
  "address_format s \<longleftrightarrow>
     length s = 42 \<and> take 2 s = utf16 ''0x'' \<and> set (drop 2 s) \<subseteq> hex_digits"

section \<open>Thrown values and awaited results\<close>

text \<open>
  A thrown value (or the reason of a rejected promise) is known to the code below through
  its \<open>message\<close> property only; \<open>None\<close> is a value without one. An awaited call gives
  \<open>Inl\<close> of the thrown value or \<open>Inr\<close> of its result, and \<open>and_then\<close> runs the rest of a
  \<open>try\<close> block after a call that did not throw.
\<close>

datatype js_error = Thrown (message: "jsstring option")

definition TypeError :: js_error where
  \<comment> \<open>reading a property of \<open>null\<close> or \<open>undefined\<close>; the text is the engine's own\<close>
  "TypeError = Thrown (Some (utf16 ''TypeError''))"

definition and_then :: "js_error + 'a \<Rightarrow> ('a \<Rightarrow> js_error + 'b) \<Rightarrow> js_error + 'b" where
  "and_then r f = (case r of Inl e \<Rightarrow> Inl e | Inr x \<Rightarrow> f x)"

section \<open>getOnChainCampaignId\<close>

text \<open>
  The body of a response, as \<open>response.json()\<close> parses it. A number is a double read from a
  decimal literal: a rational, or an infinity when the literal overflows. An object is the
  list of its own properties.
\<close>

datatype js_number = Finite rat | PlusInfinity | MinusInfinity

datatype json_value =
    JNull
  | JBool bool
  | JNum js_number
  | JStr jsstring
  | JArr "json_value list"
  | JObj "(jsstring \<times> json_value) list"

fun ToBoolean :: "json_value \<Rightarrow> bool" where
  "ToBoolean JNull = False"
| "ToBoolean (JBool b) = b"
| "ToBoolean (JNum n) = (n \<noteq> Finite 0)"
| "ToBoolean (JStr s) = (s \<noteq> [])"
| "ToBoolean (JArr xs) = True"
| "ToBoolean (JObj kvs) = True"

fun data_on_chain_id :: "json_value \<Rightarrow> js_error + json_value option" where
  \<comment> \<open>\<open>data.on_chain_id\<close>: throws on \<open>null\<close>; \<open>None\<close> is \<open>undefined\<close>, which is what a
      boolean, a number, a string and an array give for this name\<close>
  "data_on_chain_id JNull = Inl TypeError"
| "data_on_chain_id (JObj kvs) = Inr (map_of kvs (utf16 ''on_chain_id''))"
| "data_on_chain_id v = Inr None"

record response =
  ok :: bool
  json :: "js_error + json_value"

definition getOnChainCampaignId_try ::
  "(jsstring \<Rightarrow> js_error + response) \<Rightarrow> (jsstring \<rightharpoonup> jsstring) \<Rightarrow> jsstring \<Rightarrow>
     js_error + json_value option" where
  \<comment> \<open>the \<open>try\<close> block; the result \<open>None\<close> is \<open>null\<close>\<close>
  "getOnChainCampaignId_try fetch localStorage marketId =
     and_then (fetch (utf16 ''/api/markets/'' @ marketId)) (\<lambda>response.
     and_then
       (if ok response then
          and_then (json response) (\<lambda>data.
          and_then (data_on_chain_id data) (\<lambda>on_chain_id.
          Inr (case on_chain_id of
                 None \<Rightarrow> None
               | Some v \<Rightarrow> if ToBoolean v then Some v else None)))
        else Inr None) (\<lambda>returned.
     case returned of
       Some v \<Rightarrow> Inr (Some v)
     | None \<Rightarrow>
         (case localStorage (utf16 ''market_'' @ marketId @ utf16 ''_onchain_id'') of
            None \<Rightarrow> Inr None
          | Some storedId \<Rightarrow> if storedId \<noteq> [] then Inr (Some (JStr storedId)) else Inr None)))"

definition getOnChainCampaignId ::
  "(jsstring \<Rightarrow> js_error + response) \<Rightarrow> (jsstring \<rightharpoonup> jsstring) \<Rightarrow> jsstring \<Rightarrow> 'provider \<Rightarrow>
     js_error + json_value option" where
  "getOnChainCampaignId fetch localStorage marketId provider =
     (case getOnChainCampaignId_try fetch localStorage marketId of
        Inl error \<Rightarrow> Inr None
      | Inr result \<Rightarrow> Inr result)"

section \<open>getTokenBalance\<close>







section \<open>createCampaignOnChain\<close>


definition LEO_TOKEN_ADDRESS :: jsstring where
  "LEO_TOKEN_ADDRESS = utf16 ''0xA1F002bf7cAD148a639418D77b93912871901875''"


text \<open>The decimal text of a bigint, as \<open>toString()\<close> gives it.\<close>

fun decimal_digits :: "nat \<Rightarrow> jsstring" where
  "decimal_digits n =
     (if n < 10 then [of_nat (48 + n)]
      else decimal_digits (n div 10) @ [of_nat (48 + n mod 10)])"

declare decimal_digits.simps [simp del]


definition decimal_value :: "jsstring \<Rightarrow> nat" where
  \<comment> \<open>the number a string of decimal digits denotes\<close>
  "decimal_value s = foldl (\<lambda>a c. 10 * a + (unat c - 48)) 0 s"


















section \<open>updateMarketPools\<close>

text \<open>
  The side store: the table \<open>prediction_markets\<close> by its key \<open>id\<close>, and the rows of
  \<open>user_positions\<close> in insertion order. A pool column holds a number or \<open>null\<close>. Numbers
  are a type \<open>'n\<close> with the addition of the language and its zero.
\<close>

datatype 'n column = Null | Num 'n

fun Number :: "'n::zero column \<Rightarrow> 'n" where
  "Number Null = 0"
| "Number (Num x) = x"

datatype position = Yes | No

record 'n market =
  yes_pool :: "'n column"
  no_pool :: "'n column"

record 'n user_position =
  market_id :: jsstring
  user_wallet_address :: "jsstring option"
  position_type :: position
  position_amount :: 'n

record 'n store =
  prediction_markets :: "jsstring \<rightharpoonup> 'n market"
  user_positions :: "'n user_position list"

text \<open>
  How one request to the store ends: it completes, it answers with an error object, or
  the awaited call throws. A request that does not complete leaves the store as it was.
\<close>

datatype outcome = Completes | Fails js_error | Rejects js_error

record outcomes =
  of_select :: outcome
  of_update :: outcome
  of_insert :: outcome

datatype 'n updates = Set_yes_pool 'n | Set_no_pool 'n

definition no_rows :: js_error where
  "no_rows = Thrown (Some (utf16 ''JSON object requested, multiple (or no) rows returned''))"

definition select_pools ::
  "outcome \<Rightarrow> jsstring \<Rightarrow> 'n store \<Rightarrow> js_error + ('n market option \<times> js_error option)" where
  \<comment> \<open>\<open>from('prediction_markets').select('yes_pool, no_pool').eq('id', marketId).single()\<close>:
      the pair is \<open>{data, error}\<close>\<close>
  "select_pools oc marketId db =
     (case oc of
        Rejects e \<Rightarrow> Inl e
      | Fails e \<Rightarrow> Inr (None, Some e)
      | Completes \<Rightarrow>
          (case prediction_markets db marketId of
             None \<Rightarrow> Inr (None, Some no_rows)
           | Some m \<Rightarrow> Inr (Some m, None)))"

fun apply_updates :: "'n updates \<Rightarrow> 'n market \<Rightarrow> 'n market" where
  "apply_updates (Set_yes_pool v) m = m\<lparr>yes_pool := Num v\<rparr>"
| "apply_updates (Set_no_pool v) m = m\<lparr>no_pool := Num v\<rparr>"

definition update_pools ::
  "outcome \<Rightarrow> 'n updates \<Rightarrow> jsstring \<Rightarrow> 'n store \<Rightarrow> (js_error + js_error option) \<times> 'n store" where
  \<comment> \<open>\<open>from('prediction_markets').update(updates).eq('id', marketId)\<close>\<close>
  "update_pools oc updates marketId db =
     (case oc of
        Rejects e \<Rightarrow> (Inl e, db)
      | Fails e \<Rightarrow> (Inr (Some e), db)
      | Completes \<Rightarrow>
          (Inr None,
           db\<lparr>prediction_markets :=
                (case prediction_markets db marketId of
                   None \<Rightarrow> prediction_markets db
                 | Some m \<Rightarrow> (prediction_markets db)(marketId \<mapsto> apply_updates updates m))\<rparr>))"

definition insert_position ::
  "outcome \<Rightarrow> 'n user_position \<Rightarrow> 'n store \<Rightarrow> (js_error + js_error option) \<times> 'n store" where
  \<comment> \<open>\<open>from('user_positions').insert(row)\<close>\<close>
  "insert_position oc row db =
     (case oc of
        Rejects e \<Rightarrow> (Inl e, db)
      | Fails e \<Rightarrow> (Inr (Some e), db)
      | Completes \<Rightarrow> (Inr None, db\<lparr>user_positions := user_positions db @ [row]\<rparr>))"

definition updateMarketPools_try ::
  "outcomes \<Rightarrow> (jsstring \<rightharpoonup> jsstring) \<Rightarrow> jsstring \<Rightarrow> position \<Rightarrow> 'n::{zero,plus} \<Rightarrow> 'n store \<Rightarrow>
     (js_error + unit) \<times> 'n store" where
  "updateMarketPools_try ocs localStorage marketId position amount db =
     (case select_pools (of_select ocs) marketId db of
        Inl e \<Rightarrow> (Inl e, db)
      | Inr (market, fetchError) \<Rightarrow>
          if fetchError \<noteq> None then (Inr (), db)
          else
            (case market of
               None \<Rightarrow> (Inl TypeError, db)
             | Some m \<Rightarrow>
                 (let updates =
                        (if position = Yes then Set_yes_pool (Number (yes_pool m) + amount)
                         else Set_no_pool (Number (no_pool m) + amount))
                  in case update_pools (of_update ocs) updates marketId db of
                       (Inl e, db') \<Rightarrow> (Inl e, db')
                     | (Inr updateError, db') \<Rightarrow>
                         if updateError \<noteq> None then (Inr (), db')
                         else
                           (case insert_position (of_insert ocs)
                                   \<lparr>market_id = marketId,
                                    user_wallet_address = localStorage (utf16 ''walletAddress''),
                                    position_type = position,
                                    position_amount = amount\<rparr> db' of
                              (Inl e, db'') \<Rightarrow> (Inl e, db'')
                            | (Inr positionError, db'') \<Rightarrow> (Inr (), db'')))))"

definition updateMarketPools ::
  "outcomes \<Rightarrow> (jsstring \<rightharpoonup> jsstring) \<Rightarrow> jsstring \<Rightarrow> position \<Rightarrow> 'n::{zero,plus} \<Rightarrow> 'n store \<Rightarrow>
     (js_error + unit) \<times> 'n store" where
  "updateMarketPools ocs localStorage marketId position amount db =
     (case updateMarketPools_try ocs localStorage marketId position amount db of
        (Inl error, db') \<Rightarrow> (Inr (), db')
      | (Inr u, db') \<Rightarrow> (Inr u, db'))"

section \<open>Example environments\<close>

text \<open>Concrete answers of the remote endpoint, caches, ledgers and stores.\<close>

definition fetch_network_failure :: "jsstring \<Rightarrow> js_error + response" where
  "fetch_network_failure url = Inl (Thrown (Some (utf16 ''Failed to fetch'')))"

definition not_found_response :: response where
  "not_found_response =
     \<lparr>ok = False, json = Inr (JObj [(utf16 ''error'', JStr (utf16 ''not found''))])\<rparr>"

definition fetch_not_found :: "jsstring \<Rightarrow> js_error + response" where
  "fetch_not_found url = Inr not_found_response"

definition on_chain_42_response :: response where
  "on_chain_42_response =
     \<lparr>ok = True, json = Inr (JObj [(utf16 ''on_chain_id'', JStr (utf16 ''42''))])\<rparr>"

definition fetch_on_chain_42 :: "jsstring \<Rightarrow> js_error + response" where
  "fetch_on_chain_42 url = Inr on_chain_42_response"

definition cache_with_7 :: "jsstring \<rightharpoonup> jsstring" where
  "cache_with_7 = [utf16 ''market_m1_onchain_id'' \<mapsto> utf16 ''7'']"

definition empty_cache :: "jsstring \<rightharpoonup> jsstring" where
  "empty_cache = Map.empty"












definition all_complete :: outcomes where
  "all_complete = \<lparr>of_select = Completes, of_update = Completes, of_insert = Completes\<rparr>"

definition select_fails :: outcomes where
  "select_fails =
     \<lparr>of_select = Fails (Thrown (Some (utf16 ''connection refused''))),
      of_update = Completes, of_insert = Completes\<rparr>"

definition update_rejects :: outcomes where
  "update_rejects =
     \<lparr>of_select = Completes, of_update = Rejects (Thrown (Some (utf16 ''Failed to fetch''))),
      of_insert = Completes\<rparr>"

definition insert_fails :: outcomes where
  "insert_fails =
     \<lparr>of_select = Completes, of_update = Completes,
      of_insert = Fails (Thrown (Some (utf16 ''violates row-level security policy'')))\<rparr>"

definition wallet_storage :: "jsstring \<rightharpoonup> jsstring" where
  "wallet_storage = [utf16 ''walletAddress'' \<mapsto> LEO_TOKEN_ADDRESS]"

definition example_store :: "int store" where
  "example_store =
     \<lparr>prediction_markets = [utf16 ''m1'' \<mapsto> \<lparr>yes_pool = Num 10, no_pool = Num 4\<rparr>],
      user_positions = []\<rparr>"

section \<open>Properties of the pure helpers\<close>

subsection \<open>The hash of mapMarketIdToCampaignId\<close>

lemma hash_step_exact:
  "\<bar>(js_shl (sint (h::32 word)) 5 - sint h) + charCodeAt0 b\<bar> < 2 ^ 53"
proof -
  have a: "- (2 ^ 31) \<le> sint h" "sint h < 2 ^ 31"
    using sint_ge [of h] sint_lt [of h] by simp_all
  have s: "- (2 ^ 31) \<le> js_shl (sint h) 5" "js_shl (sint h) 5 < 2 ^ 31"
    using sint_ge [of "push_bit 5 h"] sint_lt [of "push_bit 5 h"]
    by (simp_all add: js_shl_def ToInt32_def)
  have c: "0 \<le> charCodeAt0 b" "charCodeAt0 b < 2 ^ 16"
    using uint_lt2p [of b] by (simp_all add: charCodeAt0_def)
  from a s c show ?thesis by simp
qed

lemma hash_step_word: "hash_step (sint h) c = sint ((h::32 word) * 31 + ucast c)"
proof -
  have "ToInt32 (sint (push_bit 5 h) - sint h + uint c) = h * 31 + ucast c"
    by (simp add: ToInt32_def push_bit_eq_mult)
  then show ?thesis
    by (simp add: hash_step_def js_shl_def js_and_def charCodeAt0_def Let_def ToInt32_def
        mult.commute)
qed

lemma hashCode_fold:
  "foldl hash_step (sint h) s = sint (foldl (\<lambda>h c. h * 31 + ucast c) (h::32 word) s)"
  by (induction s arbitrary: h) (simp_all add: hash_step_word)

lemma hashCode_rolling: "hashCode s = sint (rolling_hash s)"
  using hashCode_fold [of 0 s] by (simp add: hashCode_def rolling_hash_def)

lemma js_rem_abs: "m \<noteq> 0 \<Longrightarrow> \<bar>js_rem x m\<bar> = \<bar>x\<bar> mod \<bar>m\<bar>"
  by (cases "x = 0") (simp_all add: js_rem_def abs_mult)

text \<open>
  Claim C8. For every input string, \<open>mapMarketIdToCampaignId\<close> is a function of the string
  alone and returns an integer \<open>r\<close> with \<open>0 \<le> r < 1000\<close>; \<open>r\<close> is the absolute value of the
  remainder modulo 1000 of the signed 32-bit rolling hash \<open>hash * 31 + charCode\<close> folded over
  the code units of the string from 0.
\<close>

theorem mapMarketIdToCampaignId_rolling_hash:
  "0 \<le> mapMarketIdToCampaignId s \<and> mapMarketIdToCampaignId s < 1000 \<and>
   mapMarketIdToCampaignId s = \<bar>js_rem (sint (rolling_hash s)) 1000\<bar> \<and>
   mapMarketIdToCampaignId s = \<bar>sint (rolling_hash s)\<bar> mod 1000"
  by (simp add: mapMarketIdToCampaignId_def hashCode_rolling js_rem_abs)

lemma mapMarketIdToCampaignId_examples:
  "mapMarketIdToCampaignId (utf16 ''abc'') = 354"
  "hashCode (utf16 ''zzzzzz'') = - 685785664"
  "mapMarketIdToCampaignId (utf16 ''zzzzzz'') = 664"
  by code_simp+

subsection \<open>The address format\<close>

lemma in_hex_digits:
  "atom_matches (Class [(of_char CHR ''a'', of_char CHR ''f''),
                         (of_char CHR ''A'', of_char CHR ''F''),
                         (of_char CHR ''0'', of_char CHR ''9'')]) c = (c \<in> hex_digits)"
  unfolding hex_digits_def
  apply (simp add: word_unat_eq_iff word_le_nat_alt)
  apply arith
  done

lemma exactly_eq:
  "exactly n a s =
     (if n \<le> length s \<and> (\<forall>c \<in> set (take n s). atom_matches a c) then Some (drop n s) else None)"
  by (induction n a s rule: exactly.induct) auto

lemma regex_test_tail:
  "regex_test [Exactly n a] s = (length s = n \<and> (\<forall>c \<in> set s. atom_matches a c))"
  by (auto simp: exactly_eq)

lemma regex_test_prefixed:
  "regex_test [One a0, One a1, Exactly n a] s =
     (\<exists>c0 c1 body. s = c0 # c1 # body \<and> atom_matches a0 c0 \<and> atom_matches a1 c1 \<and>
        length body = n \<and> (\<forall>c \<in> set body. atom_matches a c))"
proof (cases s)
  case Nil
  then show ?thesis by simp
next
  case (Cons c0 t)
  then show ?thesis
    by (cases t) (simp_all add: regex_test_tail del: regex_test.simps(4))
qed

lemma regex_test_address:
  "regex_test address_regex s =
     (\<exists>body. s = of_char CHR ''0'' # of_char CHR ''x'' # body \<and> length body = 40 \<and>
        set body \<subseteq> hex_digits)"
  unfolding address_regex_def regex_test_prefixed in_hex_digits atom_matches.simps(1)
  by blast

lemma address_format_alt:
  "address_format s =
     (\<exists>body. s = of_char CHR ''0'' # of_char CHR ''x'' # body \<and> length body = 40 \<and>
        set body \<subseteq> hex_digits)"
proof
  assume "address_format s"
  then have l: "length s = 42" and p: "take 2 s = utf16 ''0x''"
    and h: "set (drop 2 s) \<subseteq> hex_digits"
    by (simp_all add: address_format_def)
  have "s = take 2 s @ drop 2 s" by simp
  with l p h show "\<exists>body. s = of_char CHR ''0'' # of_char CHR ''x'' # body \<and>
      length body = 40 \<and> set body \<subseteq> hex_digits"
    by (intro exI [of _ "drop 2 s"]) (simp add: utf16_def)
next
  assume "\<exists>body. s = of_char CHR ''0'' # of_char CHR ''x'' # body \<and> length body = 40 \<and>
      set body \<subseteq> hex_digits"
  then show "address_format s"
    by (auto simp: address_format_def utf16_def)
qed

text \<open>
  Claim C9. \<open>isAddressValid\<close> returns true for exactly the strings of the format
  \<open>^0x[a-fA-F0-9]{40}$\<close>: the two code units \<open>0x\<close> followed by exactly 40 hexadecimal digits
  of either case, and nothing else; for every other string it returns false.
\<close>

theorem isAddressValid_iff_address_format:
  "isAddressValid s = address_format s"
  by (simp only: isAddressValid_def regex_test_address address_format_alt)

theorem isAddressValid_iff_address_format_witness:
  "isAddressValid (utf16 ''0x42a2F4e5389F6e7466D97408724Dba38812f184E'') \<and>
   \<not> isAddressValid (utf16 ''0x42a2F4e5389F6e7466D97408724Dba38812f184G'') \<and>
   \<not> isAddressValid (utf16 ''0x42a2F4e5389F6e7466D97408724Dba38812f184E0'')"
  using isAddressValid_iff_address_format [of "utf16 ''0x42a2F4e5389F6e7466D97408724Dba38812f184E''"]
    isAddressValid_iff_address_format [of "utf16 ''0x42a2F4e5389F6e7466D97408724Dba38812f184G''"]
    isAddressValid_iff_address_format [of "utf16 ''0x42a2F4e5389F6e7466D97408724Dba38812f184E0''"]
  by (simp add: address_format_def utf16_def hex_digits_def)

subsection \<open>formatAddress\<close>

lemma isAddressValid_length: "isAddressValid s \<Longrightarrow> length s = 42"
  by (auto simp: isAddressValid_def regex_test_address)

lemma substring_prefix: "0 \<le> n \<Longrightarrow> substring s 0 (Some n) = take (nat n) s"
  by (simp add: substring_def Let_def min_def max_def)

lemma substring_suffix: "substring s (int (length s) - k) None = drop (length s - nat k) s"
  by (auto simp: substring_def Let_def min_def max_def nat_diff_distrib')

lemma formatAddress_eq:
  "formatAddress a = take 6 a @ utf16 ''...'' @ drop (length a - 4) a"
  using substring_prefix [of 6 a] substring_suffix [of a 4]
  by (simp add: formatAddress_def)

text \<open>
  Claim C10. \<open>formatAddress\<close> returns a string for every input, also for inputs shorter
  than 10 code units: the first (at most) 6 code units, three dots, and the last (at most) 4
  code units, so a string of \<open>min 6 n + 3 + min 4 n\<close> code units for an input of \<open>n\<close>. For
  every valid address \<open>a\<close> the result is \<open>a[0:6] + "..." + a[-4:]\<close> and has length
  \<open>6 + 3 + 4\<close>.
\<close>

theorem formatAddress_total_shape:
  "formatAddress a = take 6 a @ utf16 ''...'' @ drop (length a - 4) a \<and>
   length (formatAddress a) = min 6 (length a) + 3 + min 4 (length a) \<and>
   (isAddressValid a \<longrightarrow>
      formatAddress a = take 6 a @ utf16 ''...'' @ drop 38 a \<and>
      length (take 6 a) = 6 \<and> length (drop 38 a) = 4 \<and>
      length (formatAddress a) = 6 + 3 + 4)"
proof -
  have len: "length (formatAddress a) = min 6 (length a) + 3 + min 4 (length a)"
    by (auto simp: formatAddress_eq utf16_def min_def)
  have "isAddressValid a \<longrightarrow>
      formatAddress a = take 6 a @ utf16 ''...'' @ drop 38 a \<and>
      length (take 6 a) = 6 \<and> length (drop 38 a) = 4 \<and>
      length (formatAddress a) = 6 + 3 + 4"
    using isAddressValid_length [of a] by (auto simp: formatAddress_eq utf16_def)
  with len show ?thesis by (simp add: formatAddress_eq utf16_def)
qed

lemma contract_address_valid:
  "isAddressValid (utf16 ''0x42a2F4e5389F6e7466D97408724Dba38812f184E'')"
  by code_simp

theorem formatAddress_total_shape_witness:
  "isAddressValid (utf16 ''0x42a2F4e5389F6e7466D97408724Dba38812f184E'') \<and>
   formatAddress (utf16 ''0x42a2F4e5389F6e7466D97408724Dba38812f184E'') = utf16 ''0x42a2...184E'' \<and>
   formatAddress (utf16 ''0x1'') = utf16 ''0x1...0x1''"
  using formatAddress_total_shape [of "utf16 ''0x42a2F4e5389F6e7466D97408724Dba38812f184E''"]
    formatAddress_total_shape [of "utf16 ''0x1''"] contract_address_valid
  by (simp add: utf16_def)

section \<open>Properties of the campaign identity resolver\<close>

text \<open>
  Claim C1, as stated, at a network failure. The fetch is rejected and the local cache
  holds \<open>"7"\<close> under \<open>market_m1_onchain_id\<close>: the \<open>catch\<close> block returns \<open>null\<close>, and the
  cache is not read.
\<close>

theorem getOnChainCampaignId_network_failure_skips_cache:
  "getOnChainCampaignId fetch_network_failure cache_with_7 (utf16 ''m1'') () = Inr None \<and>
   cache_with_7 (utf16 ''market_'' @ utf16 ''m1'' @ utf16 ''_onchain_id'') = Some (utf16 ''7'') \<and>
   getOnChainCampaignId fetch_network_failure cache_with_7 (utf16 ''m1'') ()
     \<noteq> Inr (Some (JStr (utf16 ''7'')))"
  by (simp add: getOnChainCampaignId_def getOnChainCampaignId_try_def and_then_def
      fetch_network_failure_def cache_with_7_def utf16_def)

text \<open>
  Claim C1, amended. For every market identifier: when the remote query answers with a
  non-OK response, the answer counts as no remote value and the result is the non-empty
  entry of the local cache under \<open>market_<id>_onchain_id\<close>, or \<open>null\<close> without one; when
  the fetch itself throws (a network failure), the error is caught and the result is
  \<open>null\<close>. In no case does an error reach the caller.
\<close>

theorem getOnChainCampaignId_remote_failure:
  "(fetch (utf16 ''/api/markets/'' @ marketId) = Inr r \<and> \<not> ok r \<longrightarrow>
      getOnChainCampaignId fetch localStorage marketId provider =
        Inr (case localStorage (utf16 ''market_'' @ marketId @ utf16 ''_onchain_id'') of
               None \<Rightarrow> None
             | Some storedId \<Rightarrow> if storedId \<noteq> [] then Some (JStr storedId) else None)) \<and>
   (fetch (utf16 ''/api/markets/'' @ marketId) = Inl e \<longrightarrow>
      getOnChainCampaignId fetch localStorage marketId provider = Inr None) \<and>
   (\<exists>result. getOnChainCampaignId fetch localStorage marketId provider = Inr result)"
  by (auto simp: getOnChainCampaignId_def getOnChainCampaignId_try_def and_then_def
      split: sum.splits option.splits)

theorem getOnChainCampaignId_remote_failure_witness:
  "fetch_not_found (utf16 ''/api/markets/'' @ utf16 ''m1'') = Inr not_found_response \<and>
   \<not> ok not_found_response \<and>
   getOnChainCampaignId fetch_not_found cache_with_7 (utf16 ''m1'') ()
     = Inr (Some (JStr (utf16 ''7''))) \<and>
   getOnChainCampaignId fetch_network_failure cache_with_7 (utf16 ''m1'') () = Inr None"
  using getOnChainCampaignId_remote_failure
      [of fetch_not_found "utf16 ''m1''" not_found_response cache_with_7 "()"]
    getOnChainCampaignId_remote_failure
      [of fetch_network_failure "utf16 ''m1''" _ cache_with_7 "()"
          "Thrown (Some (utf16 ''Failed to fetch''))"]
  by (simp add: fetch_not_found_def not_found_response_def fetch_network_failure_def
      cache_with_7_def utf16_def)

text \<open>
  Claim C5. When the remote endpoint answers with an OK response whose body is an object
  with a truthy \<open>on_chain_id\<close> (in particular a non-empty string), that value is the
  result, whatever the local cache holds. When there is no such answer and the local cache
  has no non-empty entry for the market, the result is \<open>null\<close>.
\<close>

theorem getOnChainCampaignId_remote_first:
  "(fetch (utf16 ''/api/markets/'' @ marketId) = Inr r \<and> ok r \<and> json r = Inr (JObj kvs) \<and>
    map_of kvs (utf16 ''on_chain_id'') = Some v \<and> ToBoolean v \<longrightarrow>
      getOnChainCampaignId fetch localStorage marketId provider = Inr (Some v)) \<and>
   (fetch (utf16 ''/api/markets/'' @ marketId) = Inr r \<and> ok r \<and> json r = Inr (JObj kvs) \<and>
    map_of kvs (utf16 ''on_chain_id'') = Some (JStr s) \<and> s \<noteq> [] \<longrightarrow>
      getOnChainCampaignId fetch localStorage marketId provider = Inr (Some (JStr s))) \<and>
   ((\<nexists>r kvs v. fetch (utf16 ''/api/markets/'' @ marketId) = Inr r \<and> ok r \<and>
        json r = Inr (JObj kvs) \<and> map_of kvs (utf16 ''on_chain_id'') = Some v \<and> ToBoolean v) \<and>
    localStorage (utf16 ''market_'' @ marketId @ utf16 ''_onchain_id'') \<in> {None, Some []} \<longrightarrow>
      getOnChainCampaignId fetch localStorage marketId provider = Inr None)"
proof -
  let ?url = "utf16 ''/api/markets/'' @ marketId"
  let ?key = "utf16 ''market_'' @ marketId @ utf16 ''_onchain_id''"
  have remote: "getOnChainCampaignId fetch localStorage marketId provider = Inr (Some v)"
    if "fetch ?url = Inr r" "ok r" "json r = Inr (JObj kvs)"
       "map_of kvs (utf16 ''on_chain_id'') = Some v" "ToBoolean v" for r kvs v
    using that
    by (simp add: getOnChainCampaignId_def getOnChainCampaignId_try_def and_then_def)
  have absent: "getOnChainCampaignId fetch localStorage marketId provider = Inr None"
    if no: "\<nexists>r kvs v. fetch ?url = Inr r \<and> ok r \<and>
        json r = Inr (JObj kvs) \<and> map_of kvs (utf16 ''on_chain_id'') = Some v \<and> ToBoolean v"
      and ls: "localStorage ?key \<in> {None, Some []}"
  proof (cases "fetch ?url")
    case (Inl e)
    then show ?thesis
      by (simp add: getOnChainCampaignId_def getOnChainCampaignId_try_def and_then_def)
  next
    case (Inr r)
    have "and_then (json r) (\<lambda>data. and_then (data_on_chain_id data) (\<lambda>on_chain_id.
          Inr (case on_chain_id of None \<Rightarrow> None
               | Some v \<Rightarrow> if ToBoolean v then Some v else None)))
          \<in> range Inl \<union> {Inr None}" if "ok r"
    proof (cases "json r")
      case (Inl e)
      then show ?thesis by (simp add: and_then_def)
    next
      case body: (Inr data)
      show ?thesis
      proof (cases data)
        case (JObj kvs)
        with no Inr body \<open>ok r\<close> show ?thesis
          by (auto simp: and_then_def split: option.splits)
      qed (simp_all add: body and_then_def)
    qed
    with Inr ls show ?thesis
      by (auto simp: getOnChainCampaignId_def getOnChainCampaignId_try_def and_then_def
          split: sum.splits option.splits)
  qed
  show ?thesis
    using remote [of r kvs v] remote [of r kvs "JStr s"] absent by simp
qed

theorem getOnChainCampaignId_remote_first_witness:
  "fetch_on_chain_42 (utf16 ''/api/markets/'' @ utf16 ''m1'') = Inr on_chain_42_response \<and>
   ok on_chain_42_response \<and>
   getOnChainCampaignId fetch_on_chain_42 cache_with_7 (utf16 ''m1'') ()
     = Inr (Some (JStr (utf16 ''42''))) \<and>
   getOnChainCampaignId fetch_not_found empty_cache (utf16 ''m1'') () = Inr None"
  using getOnChainCampaignId_remote_first
      [of fetch_on_chain_42 "utf16 ''m1''" on_chain_42_response
          "[(utf16 ''on_chain_id'', JStr (utf16 ''42''))]" "JStr (utf16 ''42'')"
          cache_with_7 "()" "utf16 ''42''"]
    getOnChainCampaignId_remote_first
      [of fetch_not_found "utf16 ''m1''" _ _ _ empty_cache "()"]
  by (simp add: fetch_on_chain_42_def on_chain_42_response_def fetch_not_found_def
      not_found_response_def empty_cache_def utf16_def)

section \<open>Properties of the token balance reader\<close>



section \<open>Properties of the campaign writer\<close>

lemma unat_digit: "d < 10 \<Longrightarrow> unat (of_nat (48 + d) :: 16 word) - 48 = d"
  using unat_of_nat [where 'a = 16, of "48 + d"] by simp

lemma decimal_value_digits: "decimal_value (decimal_digits n) = n"
proof (induction n rule: decimal_digits.induct)
  case (1 n)
  show ?case
  proof (cases "n < 10")
    case True
    then show ?thesis
      using unat_digit [of n]
      by (subst decimal_digits.simps) (simp add: decimal_value_def)
  next
    case False
    with 1 have "decimal_value (decimal_digits (n div 10)) = n div 10" by simp
    with False show ?thesis
      using unat_digit [of "n mod 10"]
      by (subst decimal_digits.simps) (simp add: decimal_value_def)
  qed
qed













section \<open>Properties of the pool reconciler\<close>

lemma updateMarketPools_all_complete:
  assumes "of_select ocs = Completes" "of_update ocs = Completes" "of_insert ocs = Completes"
    and "prediction_markets db marketId = Some m"
  shows "updateMarketPools ocs localStorage marketId position amount db =
     (Inr (),
      db\<lparr>prediction_markets := (prediction_markets db)(marketId \<mapsto>
            (if position = Yes then m\<lparr>yes_pool := Num (Number (yes_pool m) + amount)\<rparr>
             else m\<lparr>no_pool := Num (Number (no_pool m) + amount)\<rparr>)),
         user_positions := user_positions db @
            [\<lparr>market_id = marketId,
              user_wallet_address = localStorage (utf16 ''walletAddress''),
              position_type = position, position_amount = amount\<rparr>]\<rparr>)"
  using assms
  by (simp add: updateMarketPools_def updateMarketPools_try_def select_pools_def
      update_pools_def insert_position_def Let_def)

text \<open>
  Claim C3. When the three store requests complete and the market exists, \<open>updateMarketPools\<close>
  sets the pool of the selected side to its old value plus the amount, leaves the pool of
  the other side and every other market as they were, and appends exactly one position row
  with that market, the stored wallet address, that side and that amount.
\<close>

theorem updateMarketPools_adds_to_side:
  "of_select ocs = Completes \<and> of_update ocs = Completes \<and> of_insert ocs = Completes \<and>
   prediction_markets db marketId = Some m \<and>
   updateMarketPools ocs localStorage marketId position amount db = (r, db') \<longrightarrow>
     (\<exists>m'. prediction_markets db' marketId = Some m' \<and>
        (position = Yes \<longrightarrow>
           yes_pool m' = Num (Number (yes_pool m) + amount) \<and> no_pool m' = no_pool m) \<and>
        (position = No \<longrightarrow>
           no_pool m' = Num (Number (no_pool m) + amount) \<and> yes_pool m' = yes_pool m)) \<and>
     (\<forall>other. other \<noteq> marketId \<longrightarrow> prediction_markets db' other = prediction_markets db other) \<and>
     user_positions db' = user_positions db @
        [\<lparr>market_id = marketId, user_wallet_address = localStorage (utf16 ''walletAddress''),
          position_type = position, position_amount = amount\<rparr>] \<and>
     r = Inr ()"
proof (intro impI, elim conjE)
  assume a: "of_select ocs = Completes" "of_update ocs = Completes" "of_insert ocs = Completes"
    "prediction_markets db marketId = Some m"
    and res: "updateMarketPools ocs localStorage marketId position amount db = (r, db')"
  note eq = updateMarketPools_all_complete [OF a, of localStorage position amount]
  from res have r: "r = Inr ()" and db': "db' = db\<lparr>prediction_markets := (prediction_markets db)(marketId \<mapsto>
            (if position = Yes then m\<lparr>yes_pool := Num (Number (yes_pool m) + amount)\<rparr>
             else m\<lparr>no_pool := Num (Number (no_pool m) + amount)\<rparr>)),
         user_positions := user_positions db @
            [\<lparr>market_id = marketId,
              user_wallet_address = localStorage (utf16 ''walletAddress''),
              position_type = position, position_amount = amount\<rparr>]\<rparr>"
    unfolding eq by simp_all
  show "(\<exists>m'. prediction_markets db' marketId = Some m' \<and>
        (position = Yes \<longrightarrow>
           yes_pool m' = Num (Number (yes_pool m) + amount) \<and> no_pool m' = no_pool m) \<and>
        (position = No \<longrightarrow>
           no_pool m' = Num (Number (no_pool m) + amount) \<and> yes_pool m' = yes_pool m)) \<and>
     (\<forall>other. other \<noteq> marketId \<longrightarrow> prediction_markets db' other = prediction_markets db other) \<and>
     user_positions db' = user_positions db @
        [\<lparr>market_id = marketId, user_wallet_address = localStorage (utf16 ''walletAddress''),
          position_type = position, position_amount = amount\<rparr>] \<and>
     r = Inr ()"
    unfolding r db' by simp
qed

theorem updateMarketPools_adds_to_side_witness:
  "fst (updateMarketPools all_complete wallet_storage (utf16 ''m1'') Yes 3 example_store) = Inr () \<and>
   prediction_markets
     (snd (updateMarketPools all_complete wallet_storage (utf16 ''m1'') Yes 3 example_store))
     (utf16 ''m1'') = Some \<lparr>yes_pool = Num 13, no_pool = Num 4\<rparr> \<and>
   user_positions
     (snd (updateMarketPools all_complete wallet_storage (utf16 ''m1'') Yes 3 example_store))
     = [\<lparr>market_id = utf16 ''m1'', user_wallet_address = Some LEO_TOKEN_ADDRESS,
         position_type = Yes, position_amount = 3\<rparr>]"
  using updateMarketPools_adds_to_side [of all_complete example_store "utf16 ''m1''" "\<lparr>yes_pool = Num 10, no_pool = Num 4\<rparr>"
      wallet_storage Yes 3
      "fst (updateMarketPools all_complete wallet_storage (utf16 ''m1'') Yes 3 example_store)"
      "snd (updateMarketPools all_complete wallet_storage (utf16 ''m1'') Yes 3 example_store)"]
  by (auto simp: all_complete_def example_store_def wallet_storage_def)

text \<open>
  Claim C4. When the pool read fails (or finds no row), or when the pool update fails, the
  store is left as it was: no pool change, no position row. When the read and the update
  complete and the insert of the position fails, the pool update stays applied and no
  position row is added: the two writes are not atomic. In every case the call completes
  without an exception for the caller.
\<close>

theorem updateMarketPools_failures:
  "(of_select ocs \<noteq> Completes \<or> prediction_markets db marketId = None \<longrightarrow>
      updateMarketPools ocs localStorage marketId position amount db = (Inr (), db)) \<and>
   (of_select ocs = Completes \<and> prediction_markets db marketId = Some m \<and>
    of_update ocs \<noteq> Completes \<longrightarrow>
      updateMarketPools ocs localStorage marketId position amount db = (Inr (), db)) \<and>
   (of_select ocs = Completes \<and> prediction_markets db marketId = Some m \<and>
    of_update ocs = Completes \<and> of_insert ocs \<noteq> Completes \<longrightarrow>
      updateMarketPools ocs localStorage marketId position amount db =
        (Inr (),
         db\<lparr>prediction_markets := (prediction_markets db)(marketId \<mapsto>
            (if position = Yes then m\<lparr>yes_pool := Num (Number (yes_pool m) + amount)\<rparr>
             else m\<lparr>no_pool := Num (Number (no_pool m) + amount)\<rparr>))\<rparr>)) \<and>
   fst (updateMarketPools ocs localStorage marketId position amount db) = Inr ()"
proof -
  have read: "updateMarketPools ocs localStorage marketId position amount db = (Inr (), db)"
    if "of_select ocs \<noteq> Completes \<or> prediction_markets db marketId = None"
    using that
    by (cases "of_select ocs")
       (auto simp: updateMarketPools_def updateMarketPools_try_def select_pools_def)
  have upd: "updateMarketPools ocs localStorage marketId position amount db = (Inr (), db)"
    if "of_select ocs = Completes" "prediction_markets db marketId = Some m"
       "of_update ocs \<noteq> Completes"
    using that
    by (cases "of_update ocs")
       (auto simp: updateMarketPools_def updateMarketPools_try_def select_pools_def
          update_pools_def Let_def)
  have ins: "updateMarketPools ocs localStorage marketId position amount db =
        (Inr (),
         db\<lparr>prediction_markets := (prediction_markets db)(marketId \<mapsto>
            (if position = Yes then m\<lparr>yes_pool := Num (Number (yes_pool m) + amount)\<rparr>
             else m\<lparr>no_pool := Num (Number (no_pool m) + amount)\<rparr>))\<rparr>)"
    if "of_select ocs = Completes" "prediction_markets db marketId = Some m"
       "of_update ocs = Completes" "of_insert ocs \<noteq> Completes"
    using that
    by (cases "of_insert ocs")
       (auto simp: updateMarketPools_def updateMarketPools_try_def select_pools_def
          update_pools_def insert_position_def Let_def)
  have quiet: "fst (updateMarketPools ocs localStorage marketId position amount db) = Inr ()"
    by (auto simp: updateMarketPools_def split: prod.splits sum.splits)
  from read upd ins quiet show ?thesis by blast
qed

theorem updateMarketPools_failures_witness:
  "updateMarketPools select_fails wallet_storage (utf16 ''m1'') Yes 3 example_store
     = (Inr (), example_store) \<and>
   updateMarketPools update_rejects wallet_storage (utf16 ''m1'') Yes 3 example_store
     = (Inr (), example_store) \<and>
   updateMarketPools insert_fails wallet_storage (utf16 ''m1'') Yes 3 example_store
     = (Inr (),
        \<lparr>prediction_markets = [utf16 ''m1'' \<mapsto> \<lparr>yes_pool = Num 13, no_pool = Num 4\<rparr>],
         user_positions = []\<rparr>)"
  using updateMarketPools_failures [of select_fails example_store "utf16 ''m1''" wallet_storage Yes 3]
    updateMarketPools_failures [of update_rejects example_store "utf16 ''m1''" wallet_storage Yes 3
        "\<lparr>yes_pool = Num 10, no_pool = Num 4\<rparr>"]
    updateMarketPools_failures [of insert_fails example_store "utf16 ''m1''" wallet_storage Yes 3
        "\<lparr>yes_pool = Num 10, no_pool = Num 4\<rparr>"]
  by (simp add: select_fails_def update_rejects_def insert_fails_def example_store_def)

end
